theory Spec2Isabelle
  imports Complex_Main "HOL-Library.Char_ord" "HOL-Library.List_Lexorder"
    "HOL-Library.Product_Lexorder"
begin

section \<open>Shard ingestion: \<open>load_json\<close> and \<open>load_all_music_history\<close>\<close>

text \<open>
  \<^verbatim>\<open>analysis.py\<close> reads the numbered files
  \<^verbatim>\<open>sampledata/StreamingHistory_music_<i>.json\<close> one after the other. The world the
  script runs in is modelled by what opening and decoding each path yields, the trace of
  the paths handed to \<open>open\<close>, and the lines printed so far. The records of a file are
  kept polymorphic: the loop only concatenates them.
\<close>

text \<open>Python's \<open>str\<close> on a non-negative integer, as the f-strings use it.\<close>

fun str_nat :: "nat \<Rightarrow> string" where
  "str_nat n = (if n < 10 then [''0123456789'' ! n]
                else str_nat (n div 10) @ [''0123456789'' ! (n mod 10)])"

declare str_nat.simps [simp del]

text \<open>
  What the body of the \<open>try\<close> block meets for one path: the decoded content (the
  items \<open>extend\<close> takes from it), a \<open>FileNotFoundError\<close>, or any other
  \<open>Exception\<close> (a permission or decoding error, a \<open>JSONDecodeError\<close>,
  \<open>extend\<close> on a value that is not iterable) with its message.
\<close>

datatype 'a outcome = Returned 'a | FileNotFoundError | Exception string

record 'a world =
  files :: "string \<Rightarrow> 'a outcome"
  opened :: "string list"
  stdout :: "string list"

definition load_json :: "'a world \<Rightarrow> string \<Rightarrow> 'a outcome \<times> 'a world" where
  "load_json w file_path = (files w file_path, w\<lparr>opened := opened w @ [file_path]\<rparr>)"

definition print :: "string \<Rightarrow> 'a world \<Rightarrow> 'a world" where
  "print s w = w\<lparr>stdout := stdout w @ [s]\<rparr>"

definition shard_path :: "nat \<Rightarrow> string" where
  "shard_path file_index =
     ''sampledata/StreamingHistory_music_'' @ str_nat file_index @ ''.json''"

definition loaded_msg :: "string \<Rightarrow> nat \<Rightarrow> string" where
  "loaded_msg file_path n = ''Loaded '' @ file_path @ '' with '' @ str_nat n @ '' entries''"

definition error_msg :: "string \<Rightarrow> string \<Rightarrow> string" where
  "error_msg file_path e = ''Error loading '' @ file_path @ '': '' @ e"

text \<open>
  The \<open>while True\<close> loop. Nothing bounds the number of files, so the loop is a partial
  function: \<open>None\<close> stands for a run that never leaves the loop.
\<close>

partial_function (option) load_loop ::
  "'r list world \<Rightarrow> 'r list \<Rightarrow> nat \<Rightarrow> ('r list \<times> 'r list world) option" where
  "load_loop w all_music_data file_index =
     (let file_path = shard_path file_index in
      case load_json w file_path of
        (Returned music_data, w1) \<Rightarrow>
          load_loop (print (loaded_msg file_path (length music_data)) w1)
            (all_music_data @ music_data) (file_index + 1)
      | (FileNotFoundError, w1) \<Rightarrow> Some (all_music_data, w1)
      | (Exception e, w1) \<Rightarrow> Some (all_music_data, print (error_msg file_path e) w1))"

definition load_all_music_history :: "'r list world \<Rightarrow> ('r list \<times> 'r list world) option" where
  "load_all_music_history w = load_loop w [] 0"

text \<open>The world after shard \<open>i\<close> was loaded with \<open>n\<close> entries.\<close>

definition loaded_one :: "nat \<Rightarrow> nat \<Rightarrow> 'a world \<Rightarrow> 'a world" where
  "loaded_one i n w =
     print (loaded_msg (shard_path i) n) (w\<lparr>opened := opened w @ [shard_path i]\<rparr>)"

fun loaded_many :: "nat \<Rightarrow> 'r list list \<Rightarrow> 'r list world \<Rightarrow> 'r list world" where
  "loaded_many i [] w = w"
| "loaded_many i (s # ss) w = loaded_many (Suc i) ss (loaded_one i (length s) w)"

section \<open>Normalisation: \<open>history_to_df\<close>\<close>

text \<open>
  One entry of a streaming-history file, with the keys of the export. The type of
  \<open>endTime\<close> is a parameter: a string in the file, a timestamp once
  \<open>pd.to_datetime\<close> has replaced the column.
\<close>

record 't play =
  endTime :: 't
  artistName :: string
  trackName :: string
  msPlayed :: int

record timestamp =
  year :: nat
  month :: nat
  day :: nat
  hour :: nat
  minute :: nat

type_synonym caldate = "nat \<times> nat \<times> nat"

text \<open>
  A row of the data frame \<open>history_to_df\<close> returns: the entry with its parsed time
  and the two columns \<open>date\<close> and \<open>minutesPlayed\<close> the function adds.
  \<open>minutesPlayed\<close> is the exact quotient; the rounding of the 64-bit float the
  script computes with is not modelled.
\<close>

record event = "timestamp play" +
  date :: caldate
  minutesPlayed :: rat

text \<open>
  The frame: its rows, and the three columns that \<open>plot_listening_patterns\<close>
  assigns later, absent (\<open>None\<close>) until then.
\<close>

record frame =
  rows :: "event list"
  hour_col :: "nat list option"
  day_of_week_col :: "string list option"
  month_col :: "string list option"

datatype error = KeyError string | ValueError

text \<open>\<open>.dt.date\<close>: the calendar date of a timestamp.\<close>

definition dt_date :: "timestamp \<Rightarrow> caldate" where
  "dt_date t = (year t, month t, day t)"

text \<open>
  \<open>pd.to_datetime\<close> is the library's parser and is a parameter here: \<open>None\<close>
  is a string it rejects, on which the whole conversion raises. A frame built from an
  empty list has no columns, so \<open>df['endTime']\<close> raises \<open>KeyError\<close>.
\<close>

definition history_to_df ::
  "(string \<Rightarrow> timestamp option) \<Rightarrow> string play list \<Rightarrow> error + frame" where
  "history_to_df to_datetime history_data =
     (if history_data = [] then Inl (KeyError ''endTime'')
      else case those (map (\<lambda>r. to_datetime (endTime r)) history_data) of
        None \<Rightarrow> Inl ValueError
      | Some parsed \<Rightarrow>
          Inr \<lparr>rows =
                 map2 (\<lambda>t r. \<lparr>endTime = t, artistName = artistName r,
                               trackName = trackName r, msPlayed = msPlayed r,
                               date = dt_date t,
                               minutesPlayed = of_int (msPlayed r) / 60000\<rparr>)
                   parsed history_data,
               hour_col = None, day_of_week_col = None, month_col = None\<rparr>)"

section \<open>The data-frame operations the summaries use\<close>

text \<open>
  \<open>groupby(key)[col].sum()\<close> and \<open>.count()\<close>: one entry per distinct key, the keys
  in ascending order (\<open>sort=True\<close> is the default of \<open>groupby\<close>).
\<close>

definition groupby_sum ::
  "('r \<Rightarrow> 'k::linorder) \<Rightarrow> ('r \<Rightarrow> rat) \<Rightarrow> 'r list \<Rightarrow> ('k \<times> rat) list" where
  "groupby_sum key val rs =
     map (\<lambda>k. (k, sum_list (map val (filter (\<lambda>r. key r = k) rs))))
       (sort (remdups (map key rs)))"

definition groupby_count :: "('r \<Rightarrow> 'k::linorder) \<Rightarrow> 'r list \<Rightarrow> ('k \<times> nat) list" where
  "groupby_count key rs =
     map (\<lambda>k. (k, length (filter (\<lambda>r. key r = k) rs))) (sort (remdups (map key rs)))"

text \<open>
  \<open>sort_values(ascending=False)\<close>: pandas reverses the series, sorts it ascending and
  reverses the outcome. The ascending sort is taken to be stable here, which is what
  the library's default does on short series; on long ones the library promises no
  order among equal values.
\<close>

definition sort_values_desc :: "('k \<times> 'v::linorder) list \<Rightarrow> ('k \<times> 'v) list" where
  "sort_values_desc s = rev (sort_key snd (rev s))"

definition head :: "nat \<Rightarrow> 'a list \<Rightarrow> 'a list" where
  "head n s = take n s"

text \<open>\<open>reindex(labels)\<close>: a label that the series lacks gets a missing value (NaN).\<close>

definition reindex :: "'k list \<Rightarrow> ('k \<times> 'v) list \<Rightarrow> ('k \<times> 'v option) list" where
  "reindex labels s = map (\<lambda>l. (l, map_of s l)) labels"

definition day_order :: "string list" where
  "day_order = [''Monday'', ''Tuesday'', ''Wednesday'', ''Thursday'', ''Friday'',
                ''Saturday'', ''Sunday'']"

text \<open>
  \<open>.dt.day_name()\<close>: the day of the week in the Gregorian calendar, Monday being 0.
  A timestamp of the library has its month in 1..12.
\<close>

definition weekday :: "timestamp \<Rightarrow> nat" where
  "weekday t =
     (let y = (if month t < 3 then year t - 1 else year t);
          off = [0, 3, 2, 5, 0, 3, 5, 1, 4, 6, 2, 4] ! ((month t - 1) mod 12)
      in (y + y div 4 - y div 100 + y div 400 + off + day t + 6) mod 7)"

definition day_name :: "timestamp \<Rightarrow> string" where
  "day_name t = day_order ! weekday t"

text \<open>\<open>.dt.strftime('%Y-%m')\<close>, for the four-digit years a timestamp can hold.\<close>

definition strftime_Y_m :: "timestamp \<Rightarrow> string" where
  "strftime_Y_m t =
     str_nat (year t) @ ''-'' @ (if month t < 10 then ''0'' else []) @ str_nat (month t)"

section \<open>The summaries of \<open>plot_overall_stats\<close> and \<open>plot_listening_patterns\<close>\<close>

text \<open>
  Each summary is named after the variable that holds it in the script and is a function
  of the rows of \<open>music_df\<close> (or \<open>podcast_df\<close>). Drawing the panels is not modelled.
\<close>

definition total_minutes :: "event list \<Rightarrow> rat" where
  "total_minutes rs = sum_list (map minutesPlayed rs)"

definition top_artists :: "event list \<Rightarrow> (string \<times> rat) list" where
  "top_artists rs = head 10 (sort_values_desc (groupby_sum artistName minutesPlayed rs))"

definition daily_listening :: "event list \<Rightarrow> (caldate \<times> rat) list" where
  "daily_listening rs = groupby_sum date minutesPlayed rs"

definition track_counts :: "event list \<Rightarrow> (string \<times> nat) list" where
  "track_counts rs = head 10 (sort_values_desc (groupby_count trackName rs))"

definition hourly_listening :: "event list \<Rightarrow> (nat \<times> rat) list" where
  "hourly_listening rs = groupby_sum (\<lambda>e. hour (endTime e)) minutesPlayed rs"

definition weekly_listening :: "event list \<Rightarrow> (string \<times> rat option) list" where
  "weekly_listening rs =
     reindex day_order (groupby_sum (\<lambda>e. day_name (endTime e)) minutesPlayed rs)"

definition monthly_listening :: "event list \<Rightarrow> (string \<times> rat) list" where
  "monthly_listening rs = groupby_sum (\<lambda>e. strftime_Y_m (endTime e)) minutesPlayed rs"

definition valid_plays :: "event list \<Rightarrow> event list" where
  "valid_plays rs = filter (\<lambda>e. minutesPlayed e > 1 / 10) rs"

text \<open>The module-level frames both plotting functions read.\<close>

record globals =
  music_df :: frame
  podcast_df :: frame

record overall_figure =
  listening_times :: "rat list"
  artists_panel :: "(string \<times> rat) list"
  daily_panel :: "(caldate \<times> rat) list"
  tracks_panel :: "(string \<times> nat) list"

record patterns_figure =
  hourly_panel :: "(nat \<times> rat) list"
  weekly_panel :: "(string \<times> rat option) list"
  monthly_panel :: "(string \<times> rat) list"
  durations_panel :: "rat list"

definition plot_overall_stats :: "globals \<Rightarrow> overall_figure \<times> globals" where
  "plot_overall_stats g =
     (let total_music_minutes = total_minutes (rows (music_df g));
          total_podcast_minutes = total_minutes (rows (podcast_df g))
      in (\<lparr>listening_times = [total_music_minutes, total_podcast_minutes],
           artists_panel = top_artists (rows (music_df g)),
           daily_panel = daily_listening (rows (music_df g)),
           tracks_panel = track_counts (rows (music_df g))\<rparr>, g))"

text \<open>
  \<open>plot_listening_patterns\<close> assigns the columns \<open>hour\<close>, \<open>day_of_week\<close> and
  \<open>month\<close> of the global \<open>music_df\<close> and groups by each of them; the globals it
  leaves behind are part of its result.
\<close>

definition plot_listening_patterns :: "globals \<Rightarrow> patterns_figure \<times> globals" where
  "plot_listening_patterns g =
     (let df = music_df g;
          df = df\<lparr>hour_col := Some (map (\<lambda>e. hour (endTime e)) (rows df))\<rparr>;
          hourly = hourly_listening (rows df);
          df = df\<lparr>day_of_week_col := Some (map (\<lambda>e. day_name (endTime e)) (rows df))\<rparr>;
          weekly = weekly_listening (rows df);
          df = df\<lparr>month_col := Some (map (\<lambda>e. strftime_Y_m (endTime e)) (rows df))\<rparr>;
          monthly = monthly_listening (rows df)
      in (\<lparr>hourly_panel = hourly, weekly_panel = weekly, monthly_panel = monthly,
           durations_panel = map minutesPlayed (valid_plays (rows df))\<rparr>,
          g\<lparr>music_df := df\<rparr>))"

section \<open>Concrete inputs\<close>

definition no_io :: "(string \<Rightarrow> 'a outcome) \<Rightarrow> 'a world" where
  "no_io fs = \<lparr>files = fs, opened = [], stdout = []\<rparr>"

text \<open>Shards 0 and 1 are there; the entry 2 occurs in both.\<close>

definition two_shards :: "nat list world" where
  "two_shards =
     no_io (\<lambda>p. if p = ''sampledata/StreamingHistory_music_0.json'' then Returned [1, 2]
                else if p = ''sampledata/StreamingHistory_music_1.json'' then Returned [2, 3]
                else FileNotFoundError)"

text \<open>Shards 0 and 2 are there, shard 1 is not.\<close>

definition gap_at_1 :: "nat list world" where
  "gap_at_1 =
     no_io (\<lambda>p. if p = ''sampledata/StreamingHistory_music_0.json'' then Returned [1, 2]
                else if p = ''sampledata/StreamingHistory_music_2.json'' then Returned [5]
                else FileNotFoundError)"

text \<open>Only shard 1 is there.\<close>

definition only_shard_1 :: "nat list world" where
  "only_shard_1 =
     no_io (\<lambda>p. if p = ''sampledata/StreamingHistory_music_1.json'' then Returned [7]
                else FileNotFoundError)"

text \<open>Shard 0 is there, shard 1 is not valid JSON.\<close>

definition broken_shard_1 :: "nat list world" where
  "broken_shard_1 =
     no_io (\<lambda>p. if p = ''sampledata/StreamingHistory_music_0.json'' then Returned [1, 2]
                else if p = ''sampledata/StreamingHistory_music_1.json''
                then Exception ''Expecting value: line 1 column 1 (char 0)''
                else FileNotFoundError)"

text \<open>The two entries of the end-to-end example, and a parser that knows their times.\<close>

definition raw_T1 :: "string play" where
  "raw_T1 = \<lparr>endTime = ''2024-01-01 10:00'', artistName = ''A'', trackName = ''T1'',
             msPlayed = 180000\<rparr>"

definition raw_T2 :: "string play" where
  "raw_T2 = \<lparr>endTime = ''2024-01-01 11:30'', artistName = ''B'', trackName = ''T2'',
             msPlayed = 30000\<rparr>"

definition to_datetime_example :: "string \<Rightarrow> timestamp option" where
  "to_datetime_example s =
     (if s = ''2024-01-01 10:00''
      then Some \<lparr>year = 2024, month = 1, day = 1, hour = 10, minute = 0\<rparr>
      else if s = ''2024-01-01 11:30''
      then Some \<lparr>year = 2024, month = 1, day = 1, hour = 11, minute = 30\<rparr>
      else None)"

definition play_at :: "nat \<Rightarrow> nat \<Rightarrow> string \<Rightarrow> string \<Rightarrow> int \<Rightarrow> event" where
  "play_at d h a t ms =
     \<lparr>endTime = \<lparr>year = 2024, month = 1, day = d, hour = h, minute = 0\<rparr>,
      artistName = a, trackName = t, msPlayed = ms, date = (2024, 1, d),
      minutesPlayed = of_int ms / 60000\<rparr>"

definition fresh_frame :: "event list \<Rightarrow> frame" where
  "fresh_frame rs = \<lparr>rows = rs, hour_col = None, day_of_week_col = None, month_col = None\<rparr>"

definition globals_of :: "event list \<Rightarrow> event list \<Rightarrow> globals" where
  "globals_of music podcasts =
     \<lparr>music_df = fresh_frame music, podcast_df = fresh_frame podcasts\<rparr>"

text \<open>One play: Monday 2024-01-01, 10:00, three minutes.\<close>

definition one_play :: "event list" where
  "one_play = [play_at 1 10 ''A'' ''T1'' 180000]"


text \<open>A play of exactly six seconds, one a millisecond longer, and one of no length.\<close>

definition short_and_long :: "event list" where
  "short_and_long =
     [play_at 1 10 ''A'' ''T1'' 6000, play_at 1 10 ''A'' ''T1'' 6001,
      play_at 1 11 ''B'' ''T2'' 0]"

section \<open>Properties of the ingestion loop\<close>

lemma load_loop_Returned:
  assumes "files w (shard_path i) = Returned d"
  shows "load_loop w acc i = load_loop (loaded_one i (length d) w) (acc @ d) (Suc i)"
  using assms by (subst load_loop.simps) (simp add: load_json_def loaded_one_def Let_def)

lemma load_loop_FileNotFoundError:
  assumes "files w (shard_path i) = FileNotFoundError"
  shows "load_loop w acc i = Some (acc, w\<lparr>opened := opened w @ [shard_path i]\<rparr>)"
  using assms by (subst load_loop.simps) (simp add: load_json_def Let_def)

lemma load_loop_Exception:
  assumes "files w (shard_path i) = Exception e"
  shows "load_loop w acc i =
    Some (acc, print (error_msg (shard_path i) e) (w\<lparr>opened := opened w @ [shard_path i]\<rparr>))"
  using assms by (subst load_loop.simps) (simp add: load_json_def Let_def)

lemma files_loaded_one [simp]: "files (loaded_one i n w) = files w"
  by (simp add: loaded_one_def print_def)

lemma files_loaded_many [simp]: "files (loaded_many i ss w) = files w"
  by (induction ss arbitrary: i w) simp_all

lemma opened_loaded_many:
  "opened (loaded_many i ss w) = opened w @ map shard_path [i..<i + length ss]"
proof (induction ss arbitrary: i w)
  case Nil
  show ?case by simp
next
  case (Cons s ss)
  have "[i..<i + length (s # ss)] = i # [Suc i..<Suc i + length ss]"
    using upt_conv_Cons [of i "i + Suc (length ss)"] by simp
  with Cons show ?case
    by (simp add: loaded_one_def print_def)
qed

lemma stdout_loaded_many:
  "stdout (loaded_many i ss w) =
     stdout w @ map (\<lambda>(j, s). loaded_msg (shard_path j) (length s)) (zip [i..<i + length ss] ss)"
proof (induction ss arbitrary: i w)
  case Nil
  show ?case by simp
next
  case (Cons s ss)
  have "[i..<i + length (s # ss)] = i # [Suc i..<Suc i + length ss]"
    using upt_conv_Cons [of i "i + Suc (length ss)"] by simp
  with Cons show ?case
    by (simp add: loaded_one_def print_def)
qed

text \<open>As long as the files are there, the loop takes them in, in index order.\<close>

lemma load_loop_present:
  assumes "\<forall>j < length ss. files w (shard_path (i + j)) = Returned (ss ! j)"
  shows "load_loop w acc i = load_loop (loaded_many i ss w) (acc @ concat ss) (i + length ss)"
  using assms
proof (induction ss arbitrary: i w acc)
  case Nil
  show ?case by simp
next
  case (Cons s ss)
  from Cons.prems have here: "files w (shard_path i) = Returned s"
    by (metis add.right_neutral length_greater_0_conv list.distinct(1) nth_Cons_0)
  have rest: "\<forall>j < length ss. files (loaded_one i (length s) w) (shard_path (Suc i + j)) = Returned (ss ! j)"
  proof (intro allI impI)
    fix j assume "j < length ss"
    then have "files w (shard_path (i + Suc j)) = Returned ((s # ss) ! Suc j)"
      using Cons.prems by (metis Suc_less_eq length_Cons)
    then show "files (loaded_one i (length s) w) (shard_path (Suc i + j)) = Returned (ss ! j)"
      by simp
  qed
  show ?case
    by (simp add: load_loop_Returned [OF here] Cons.IH [OF rest])
qed

subsection \<open>The claims about ingestion\<close>

lemma shard_path_0: "shard_path 0 = ''sampledata/StreamingHistory_music_0.json''"
  by (simp add: shard_path_def str_nat.simps)

lemma shard_path_1: "shard_path (Suc 0) = ''sampledata/StreamingHistory_music_1.json''"
  by (simp add: shard_path_def str_nat.simps)

lemma shard_path_2: "shard_path (Suc (Suc 0)) = ''sampledata/StreamingHistory_music_2.json''"
  by (simp add: shard_path_def str_nat.simps)

lemma load_all_present_then:
  assumes "\<forall>j < length shards. files w (shard_path j) = Returned (shards ! j)"
  shows "load_all_music_history w =
     load_loop (loaded_many 0 shards w) (concat shards) (length shards)"
proof -
  from assms have "\<forall>j < length shards. files w (shard_path (0 + j)) = Returned (shards ! j)"
    by simp
  then have "load_loop w [] 0 =
      load_loop (loaded_many 0 shards w) ([] @ concat shards) (0 + length shards)"
    by (rule load_loop_present)
  then show ?thesis
    by (simp add: load_all_music_history_def)
qed

text \<open>With \<open>k\<close> shards the loop opens the paths \<open>0, \<dots>, k\<close> and prints one line per shard.\<close>

lemma load_all_music_history_trace:
  assumes "\<forall>j < length shards. files w (shard_path j) = Returned (shards ! j)"
    and "files w (shard_path (length shards)) = FileNotFoundError"
  shows "\<exists>w'. load_all_music_history w = Some (concat shards, w') \<and>
    opened w' = opened w @ map shard_path [0..<Suc (length shards)] \<and>
    stdout w' = stdout w @
      map (\<lambda>(j, s). loaded_msg (shard_path j) (length s)) (zip [0..<length shards] shards)"
proof -
  have "load_all_music_history w =
      load_loop (loaded_many 0 shards w) (concat shards) (length shards)"
    using assms(1) by (rule load_all_present_then)
  moreover have "files (loaded_many 0 shards w) (shard_path (length shards)) = FileNotFoundError"
    using assms(2) by simp
  ultimately have "load_all_music_history w =
      Some (concat shards, (loaded_many 0 shards w)
        \<lparr>opened := opened (loaded_many 0 shards w) @ [shard_path (length shards)]\<rparr>)"
    by (simp add: load_loop_FileNotFoundError)
  then show ?thesis
    by (simp add: opened_loaded_many stdout_loaded_many)
qed

text \<open>
  Claim C1. When the shards \<open>0, \<dots>, k - 1\<close> are there and shard \<open>k\<close> is not,
  \<open>load_all_music_history\<close> returns, and what it returns is the concatenation of the
  shards in index order, each shard's entries in file order, none moved or dropped. For
  \<open>k = 0\<close> that is the empty list.
\<close>

theorem load_all_music_history_concat:
  "(\<forall>j < length shards. files w (shard_path j) = Returned (shards ! j)) \<and>
   files w (shard_path (length shards)) = FileNotFoundError \<Longrightarrow>
   map_option fst (load_all_music_history w) = Some (concat shards)"
proof -
  assume a: "(\<forall>j < length shards. files w (shard_path j) = Returned (shards ! j)) \<and>
    files w (shard_path (length shards)) = FileNotFoundError"
  then have "load_all_music_history w =
      load_loop (loaded_many 0 shards w) (concat shards) (length shards)"
    by (intro load_all_present_then) simp
  moreover have "files (loaded_many 0 shards w) (shard_path (length shards)) = FileNotFoundError"
    using a by simp
  ultimately show ?thesis
    by (simp add: load_loop_FileNotFoundError)
qed

theorem load_all_music_history_concat_witness:
  "files two_shards (shard_path 0) = Returned [1, 2] \<and>
   files two_shards (shard_path 1) = Returned [2, 3] \<and>
   files two_shards (shard_path 2) = FileNotFoundError \<and>
   map_option fst (load_all_music_history two_shards) = Some [1, 2, 2, 3]"
proof -
  have f: "files two_shards (shard_path 0) = Returned [1, 2] \<and>
      files two_shards (shard_path 1) = Returned [2, 3] \<and>
      files two_shards (shard_path 2) = FileNotFoundError"
    by (simp add: two_shards_def no_io_def shard_path_0 shard_path_1 shard_path_2
        numeral_2_eq_2)
  then have h: "(\<forall>j < length [[1, 2], [2, 3::nat]].
      files two_shards (shard_path j) = Returned ([[1, 2], [2, 3]] ! j)) \<and>
   files two_shards (shard_path (length [[1, 2], [2, 3::nat]])) = FileNotFoundError"
    by (simp add: All_less_Suc numeral_2_eq_2)
  from load_all_music_history_concat [OF h] f show ?thesis by simp
qed

lemma load_all_music_history_no_shard_0:
  "files w (shard_path 0) = FileNotFoundError \<Longrightarrow>
   load_all_music_history w = Some ([], w\<lparr>opened := opened w @ [shard_path 0]\<rparr>)"
  by (simp add: load_all_music_history_def load_loop_FileNotFoundError)

text \<open>
  Claim C2. The loop stops at the first index that is missing. With shard 0 there and
  shard 1 missing, the entries of shard 0 are returned and the only paths opened are
  those of shards 0 and 1, whatever is stored under shard 2. With shard 0 missing the
  result is empty and only the path of shard 0 was opened, whatever is stored under
  shard 1.
\<close>

theorem load_all_music_history_stops_at_gap:
  "(files w (shard_path 0) = Returned xs \<and> files w (shard_path 1) = FileNotFoundError \<longrightarrow>
      map_option (\<lambda>(d, w'). (d, opened w')) (load_all_music_history w) =
        Some (xs, opened w @ [shard_path 0, shard_path 1]) \<and>
      shard_path 2 \<notin> set [shard_path 0, shard_path 1]) \<and>
   (files v (shard_path 0) = FileNotFoundError \<longrightarrow>
      map_option (\<lambda>(d, v'). (d, opened v')) (load_all_music_history v) =
        Some ([], opened v @ [shard_path 0]))"
proof (intro conjI impI)
  assume a: "files w (shard_path 0) = Returned xs \<and> files w (shard_path 1) = FileNotFoundError"
  then have "\<forall>j < length [xs]. files w (shard_path j) = Returned ([xs] ! j)"
    by simp
  then have "load_all_music_history w = load_loop (loaded_many 0 [xs] w) (concat [xs]) (length [xs])"
    by (rule load_all_present_then)
  moreover have "files (loaded_many 0 [xs] w) (shard_path (Suc 0)) = FileNotFoundError"
    using a by simp
  ultimately show "map_option (\<lambda>(d, w'). (d, opened w')) (load_all_music_history w) =
        Some (xs, opened w @ [shard_path 0, shard_path 1])"
    by (simp add: load_loop_FileNotFoundError loaded_one_def print_def)
next
  show "shard_path 2 \<notin> set [shard_path 0, shard_path 1]"
    by (simp add: shard_path_0 shard_path_1 shard_path_2 numeral_2_eq_2)
next
  assume "files v (shard_path 0) = FileNotFoundError"
  then show "map_option (\<lambda>(d, v'). (d, opened v')) (load_all_music_history v) =
        Some ([], opened v @ [shard_path 0])"
    by (simp add: load_all_music_history_no_shard_0)
qed

theorem load_all_music_history_stops_at_gap_witness:
  "files gap_at_1 (shard_path 0) = Returned [1, 2] \<and>
   files gap_at_1 (shard_path 1) = FileNotFoundError \<and>
   files gap_at_1 (shard_path 2) = Returned [5] \<and>
   map_option (\<lambda>(d, w'). (d, opened w')) (load_all_music_history gap_at_1) =
     Some ([1, 2], [''sampledata/StreamingHistory_music_0.json'',
                    ''sampledata/StreamingHistory_music_1.json'']) \<and>
   files only_shard_1 (shard_path 0) = FileNotFoundError \<and>
   files only_shard_1 (shard_path 1) = Returned [7] \<and>
   map_option (\<lambda>(d, w'). (d, opened w')) (load_all_music_history only_shard_1) =
     Some ([], [''sampledata/StreamingHistory_music_0.json''])"
proof -
  have g: "files gap_at_1 (shard_path 0) = Returned [1, 2] \<and>
      files gap_at_1 (shard_path 1) = FileNotFoundError"
    by (simp add: gap_at_1_def no_io_def shard_path_0 shard_path_1)
  have g2: "files gap_at_1 (shard_path 2) = Returned [5]"
    by (simp add: gap_at_1_def no_io_def shard_path_2 numeral_2_eq_2)
  have o: "files only_shard_1 (shard_path 0) = FileNotFoundError"
    by (simp add: only_shard_1_def no_io_def shard_path_0)
  have o1: "files only_shard_1 (shard_path 1) = Returned [7]"
    by (simp add: only_shard_1_def no_io_def shard_path_1)
  have og: "opened gap_at_1 = []" and oo: "opened only_shard_1 = []"
    by (simp_all add: gap_at_1_def only_shard_1_def no_io_def)
  from load_all_music_history_stops_at_gap [of gap_at_1 "[1, 2]" only_shard_1] g g2 o o1
  show ?thesis
    by (simp add: og oo shard_path_0 shard_path_1)
qed

text \<open>
  Claim C5. When shard \<open>k\<close> fails with an exception other than
  \<open>FileNotFoundError\<close>, the function still returns normally: the result is the
  concatenation of the shards before \<open>k\<close>, and the last line printed is the
  diagnostic naming the path and the exception.
\<close>

theorem load_all_music_history_keeps_prior_shards:
  "(\<forall>j < length shards. files w (shard_path j) = Returned (shards ! j)) \<and>
   files w (shard_path (length shards)) = Exception e \<Longrightarrow>
   map_option (\<lambda>(d, w'). (d, last (stdout w'))) (load_all_music_history w) =
     Some (concat shards, error_msg (shard_path (length shards)) e)"
proof -
  assume a: "(\<forall>j < length shards. files w (shard_path j) = Returned (shards ! j)) \<and>
    files w (shard_path (length shards)) = Exception e"
  then have "load_all_music_history w =
      load_loop (loaded_many 0 shards w) (concat shards) (length shards)"
    by (intro load_all_present_then) simp
  moreover have "files (loaded_many 0 shards w) (shard_path (length shards)) = Exception e"
    using a by simp
  ultimately show ?thesis
    by (simp add: load_loop_Exception print_def)
qed

theorem load_all_music_history_keeps_prior_shards_witness:
  "files broken_shard_1 (shard_path 0) = Returned [1, 2] \<and>
   files broken_shard_1 (shard_path 1) =
     Exception ''Expecting value: line 1 column 1 (char 0)'' \<and>
   map_option (\<lambda>(d, w'). (d, last (stdout w'))) (load_all_music_history broken_shard_1) =
     Some ([1, 2], ''Error loading sampledata/StreamingHistory_music_1.json: Expecting value: line 1 column 1 (char 0)'')"
proof -
  have f: "files broken_shard_1 (shard_path 0) = Returned [1, 2] \<and>
      files broken_shard_1 (shard_path 1) =
        Exception ''Expecting value: line 1 column 1 (char 0)''"
    by (simp add: broken_shard_1_def no_io_def shard_path_0 shard_path_1)
  then have h: "(\<forall>j < length [[1, 2::nat]].
      files broken_shard_1 (shard_path j) = Returned ([[1, 2]] ! j)) \<and>
   files broken_shard_1 (shard_path (length [[1, 2::nat]])) =
     Exception ''Expecting value: line 1 column 1 (char 0)''"
    by simp
  from load_all_music_history_keeps_prior_shards [OF h] f show ?thesis
    by (simp add: error_msg_def shard_path_1)
qed

section \<open>Properties of the data-frame operations\<close>

lemma keys_groupby_sum: "map fst (groupby_sum key val rs) = sort (remdups (map key rs))"
  by (simp add: groupby_sum_def comp_def)


lemma strictly_ascending_keys: "sorted_wrt (<) (sort (remdups (map key rs)))"
  by (simp add: strict_sorted_iff)

lemma groupby_sum_entry:
  "(k, v) \<in> set (groupby_sum key val rs) \<Longrightarrow>
     v = sum_list (map val (filter (\<lambda>r. key r = k) rs))"
  by (auto simp: groupby_sum_def)

lemma map_of_groupby_sum:
  "map_of (groupby_sum key val rs) k =
     (if k \<in> key ` set rs then Some (sum_list (map val (filter (\<lambda>r. key r = k) rs)))
      else None)"
proof -
  have "map_of (map (\<lambda>k. (k, f k)) ks) k = (if k \<in> set ks then Some (f k) else None)"
    for f :: "'a \<Rightarrow> rat" and ks
    by (induction ks) auto
  then show ?thesis
    by (simp add: groupby_sum_def)
qed












lemma plot_listening_patterns_figure:
  "fst (plot_listening_patterns g) =
     \<lparr>hourly_panel = hourly_listening (rows (music_df g)),
      weekly_panel = weekly_listening (rows (music_df g)),
      monthly_panel = monthly_listening (rows (music_df g)),
      durations_panel = map minutesPlayed (valid_plays (rows (music_df g)))\<rparr>"
  by (simp add: plot_listening_patterns_def Let_def)

lemma plot_listening_patterns_globals:
  "snd (plot_listening_patterns g) =
     g\<lparr>music_df := (music_df g)
         \<lparr>hour_col := Some (map (\<lambda>e. hour (endTime e)) (rows (music_df g))),
          day_of_week_col := Some (map (\<lambda>e. day_name (endTime e)) (rows (music_df g))),
          month_col := Some (map (\<lambda>e. strftime_Y_m (endTime e)) (rows (music_df g)))\<rparr>\<rparr>"
  by (simp add: plot_listening_patterns_def Let_def)

text \<open>The concrete inputs, evaluated.\<close>

lemma minutesPlayed_play_at: "minutesPlayed (play_at d h a t ms) = of_int ms / 60000"
  by (simp add: play_at_def)

lemma day_name_one_play: "day_name (endTime (play_at (Suc 0) h a t ms)) = ''Monday''"
  by (simp add: play_at_def day_name_def weekday_def day_order_def)

lemma hourly_one_play: "hourly_listening one_play = [(10, 3)]"
  by (simp add: hourly_listening_def one_play_def groupby_sum_def play_at_def)

lemma weekly_one_play:
  "weekly_listening one_play =
     [(''Monday'', Some 3), (''Tuesday'', None), (''Wednesday'', None), (''Thursday'', None),
      (''Friday'', None), (''Saturday'', None), (''Sunday'', None)]"
  by (simp add: weekly_listening_def one_play_def groupby_sum_def day_name_one_play
      minutesPlayed_play_at reindex_def day_order_def)




lemma valid_short_and_long: "valid_plays short_and_long = [play_at 1 10 ''A'' ''T1'' 6001]"
  by (simp add: valid_plays_def short_and_long_def minutesPlayed_play_at)

section \<open>Properties of \<open>history_to_df\<close>\<close>

lemma those_map_Some:
  "those (map f xs) = Some ys \<Longrightarrow>
     length ys = length xs \<and> (\<forall>i < length xs. f (xs ! i) = Some (ys ! i))"
proof (induction xs arbitrary: ys)
  case Nil
  then show ?case by simp
next
  case (Cons x xs)
  from Cons.prems obtain y zs where y: "f x = Some y" and zs: "those (map f xs) = Some zs"
    and ys: "ys = y # zs"
    by (auto split: option.splits)
  from Cons.IH [OF zs] y ys show ?case
    by (auto simp: nth_Cons split: nat.splits)
qed

lemma history_to_df_rows:
  assumes "history_to_df to_datetime history_data = Inr df"
  shows "\<exists>parsed. length parsed = length history_data \<and>
    (\<forall>i < length history_data. to_datetime (endTime (history_data ! i)) = Some (parsed ! i)) \<and>
    rows df = map2 (\<lambda>t r. \<lparr>endTime = t, artistName = artistName r,
             trackName = trackName r, msPlayed = msPlayed r, date = dt_date t,
             minutesPlayed = of_int (msPlayed r) / 60000\<rparr>) parsed history_data"
proof -
  from assms obtain parsed where
    p: "those (map (\<lambda>r. to_datetime (endTime r)) history_data) = Some parsed" and
    df: "rows df = map2 (\<lambda>t r. \<lparr>endTime = t, artistName = artistName r,
             trackName = trackName r, msPlayed = msPlayed r, date = dt_date t,
             minutesPlayed = of_int (msPlayed r) / 60000\<rparr>) parsed history_data"
    by (auto simp: history_to_df_def split: if_splits option.splits)
  from those_map_Some [OF p] df show ?thesis
    by blast
qed

text \<open>An empty history cannot be normalised: the frame has no \<open>endTime\<close> column.\<close>

lemma history_to_df_empty: "history_to_df to_datetime [] = Inl (KeyError ''endTime'')"
  by (simp add: history_to_df_def)

lemma history_to_df_example:
  "history_to_df to_datetime_example [raw_T1, raw_T2] =
     Inr (fresh_frame
       [\<lparr>endTime = \<lparr>year = 2024, month = 1, day = 1, hour = 10, minute = 0\<rparr>,
         artistName = ''A'', trackName = ''T1'', msPlayed = 180000, date = (2024, 1, 1),
         minutesPlayed = 3\<rparr>,
        \<lparr>endTime = \<lparr>year = 2024, month = 1, day = 1, hour = 11, minute = 30\<rparr>,
         artistName = ''B'', trackName = ''T2'', msPlayed = 30000, date = (2024, 1, 1),
         minutesPlayed = 1 / 2\<rparr>])"
  by (simp add: history_to_df_def raw_T1_def raw_T2_def to_datetime_example_def
      fresh_frame_def dt_date_def)

text \<open>The end-to-end example: 3.5 minutes in all, A on top, hours 10 and 11.\<close>

lemma end_to_end_example:
  assumes "history_to_df to_datetime_example [raw_T1, raw_T2] = Inr df"
  shows "total_minutes (rows df) = 7 / 2"
    and "top_artists (rows df) = [(''A'', 3), (''B'', 1 / 2)]"
    and "hourly_listening (rows df) = [(10, 3), (11, 1 / 2)]"
proof -
  from assms have rs: "rows df =
       [\<lparr>endTime = \<lparr>year = 2024, month = 1, day = 1, hour = 10, minute = 0\<rparr>,
         artistName = ''A'', trackName = ''T1'', msPlayed = 180000, date = (2024, 1, 1),
         minutesPlayed = 3\<rparr>,
        \<lparr>endTime = \<lparr>year = 2024, month = 1, day = 1, hour = 11, minute = 30\<rparr>,
         artistName = ''B'', trackName = ''T2'', msPlayed = 30000, date = (2024, 1, 1),
         minutesPlayed = 1 / 2\<rparr>]"
    by (auto simp: history_to_df_example fresh_frame_def)
  show "total_minutes (rows df) = 7 / 2"
    by (simp add: rs total_minutes_def)
  show "top_artists (rows df) = [(''A'', 3), (''B'', 1 / 2)]"
    by (simp add: rs top_artists_def groupby_sum_def head_def sort_values_desc_def)
  show "hourly_listening (rows df) = [(10, 3), (11, 1 / 2)]"
    by (simp add: rs hourly_listening_def groupby_sum_def)
qed

text \<open>
  On a frame that \<open>history_to_df\<close> built, the test \<open>minutesPlayed > 0.1\<close> is the test
  \<open>msPlayed > 6000\<close>.
\<close>

lemma valid_plays_in_milliseconds:
  assumes "history_to_df to_datetime history_data = Inr df"
  shows "valid_plays (rows df) = filter (\<lambda>e. 6000 < msPlayed e) (rows df)"
proof -
  from history_to_df_rows [OF assms] obtain parsed where
    df: "rows df = map2 (\<lambda>t r. \<lparr>endTime = t, artistName = artistName r,
             trackName = trackName r, msPlayed = msPlayed r, date = dt_date t,
             minutesPlayed = of_int (msPlayed r) / 60000\<rparr>) parsed history_data"
    by blast
  have "\<forall>e \<in> set (rows df). minutesPlayed e = of_int (msPlayed e) / 60000"
    unfolding df by (auto dest!: set_zip_leftD set_zip_rightD simp: set_zip)
  then have "\<forall>e \<in> set (rows df). (1 / 10 < minutesPlayed e) = (6000 < msPlayed e)"
    by (auto simp: field_simps)
  then show ?thesis
    unfolding valid_plays_def by (intro filter_cong) auto
qed

section \<open>The claims about normalisation and the summaries\<close>

text \<open>
  Claim C8. In every row of the frame \<open>history_to_df\<close> returns, \<open>minutesPlayed\<close> is
  \<open>msPlayed / 60000\<close> of the entry the row comes from, \<open>endTime\<close> is the parsed time
  of that entry, and \<open>date\<close> is the year, month and day of that time. The rows are the
  entries, one for one and in order.
\<close>

theorem history_to_df_derived_columns:
  "history_to_df to_datetime history_data = Inr df \<Longrightarrow>
   length (rows df) = length history_data \<and>
   (\<forall>i < length history_data.
      to_datetime (endTime (history_data ! i)) = Some (endTime (rows df ! i)) \<and>
      msPlayed (rows df ! i) = msPlayed (history_data ! i) \<and>
      minutesPlayed (rows df ! i) = of_int (msPlayed (history_data ! i)) / 60000 \<and>
      date (rows df ! i) =
        (year (endTime (rows df ! i)), month (endTime (rows df ! i)),
         day (endTime (rows df ! i))))"
proof -
  assume "history_to_df to_datetime history_data = Inr df"
  from history_to_df_rows [OF this] obtain parsed where
    len: "length parsed = length history_data" and
    at: "\<forall>i < length history_data.
      to_datetime (endTime (history_data ! i)) = Some (parsed ! i)" and
    df: "rows df = map2 (\<lambda>t r. \<lparr>endTime = t, artistName = artistName r,
             trackName = trackName r, msPlayed = msPlayed r, date = dt_date t,
             minutesPlayed = of_int (msPlayed r) / 60000\<rparr>) parsed history_data"
    by blast
  show ?thesis
    using len at by (simp add: df dt_date_def)
qed

theorem history_to_df_derived_columns_witness:
  "history_to_df to_datetime_example [raw_T1, raw_T2] =
     Inr (fresh_frame
       [\<lparr>endTime = \<lparr>year = 2024, month = 1, day = 1, hour = 10, minute = 0\<rparr>,
         artistName = ''A'', trackName = ''T1'', msPlayed = 180000, date = (2024, 1, 1),
         minutesPlayed = 3\<rparr>,
        \<lparr>endTime = \<lparr>year = 2024, month = 1, day = 1, hour = 11, minute = 30\<rparr>,
         artistName = ''B'', trackName = ''T2'', msPlayed = 30000, date = (2024, 1, 1),
         minutesPlayed = 1 / 2\<rparr>]) \<and>
   length (rows (fresh_frame
       [\<lparr>endTime = \<lparr>year = 2024, month = 1, day = 1, hour = 10, minute = 0\<rparr>,
         artistName = ''A'', trackName = ''T1'', msPlayed = 180000, date = (2024, 1, 1),
         minutesPlayed = 3\<rparr>,
        \<lparr>endTime = \<lparr>year = 2024, month = 1, day = 1, hour = 11, minute = 30\<rparr>,
         artistName = ''B'', trackName = ''T2'', msPlayed = 30000, date = (2024, 1, 1),
         minutesPlayed = 1 / 2\<rparr>])) = length [raw_T1, raw_T2]"
  using history_to_df_derived_columns [OF history_to_df_example] history_to_df_example
  by simp






text \<open>
  Claim C3, as the code has it. The hourly summary has one bucket for each hour that
  occurs in the input, in ascending order, holding the minutes of that hour, and no
  bucket for any other hour. The day-of-week summary has exactly 7 buckets in the order
  Monday to Sunday; the bucket of a day that occurs holds the minutes of that day, the
  bucket of a day that does not occur holds a missing value, not zero.
\<close>

theorem hourly_and_weekly_buckets:
  "sorted_wrt (<) (map fst (hourly_listening rs)) \<and>
   set (map fst (hourly_listening rs)) = (\<lambda>e. hour (endTime e)) ` set rs \<and>
   (\<forall>(h, v) \<in> set (hourly_listening rs).
      v = sum_list (map minutesPlayed (filter (\<lambda>e. hour (endTime e) = h) rs))) \<and>
   length (weekly_listening rs) = 7 \<and>
   map fst (weekly_listening rs) = day_order \<and>
   (\<forall>(d, v) \<in> set (weekly_listening rs).
      v = (if d \<in> (\<lambda>e. day_name (endTime e)) ` set rs
           then Some (sum_list (map minutesPlayed
                  (filter (\<lambda>e. day_name (endTime e) = d) rs)))
           else None))"
proof (intro conjI)
  show "sorted_wrt (<) (map fst (hourly_listening rs))"
    by (simp only: hourly_listening_def keys_groupby_sum strictly_ascending_keys)
  show "set (map fst (hourly_listening rs)) = (\<lambda>e. hour (endTime e)) ` set rs"
    by (simp only: hourly_listening_def keys_groupby_sum) simp
  show "\<forall>(h, v) \<in> set (hourly_listening rs).
      v = sum_list (map minutesPlayed (filter (\<lambda>e. hour (endTime e) = h) rs))"
    unfolding hourly_listening_def by (auto dest: groupby_sum_entry)
  show "length (weekly_listening rs) = 7"
    by (simp add: weekly_listening_def reindex_def day_order_def)
  show "map fst (weekly_listening rs) = day_order"
    by (simp add: weekly_listening_def reindex_def comp_def)
  show "\<forall>(d, v) \<in> set (weekly_listening rs).
      v = (if d \<in> (\<lambda>e. day_name (endTime e)) ` set rs
           then Some (sum_list (map minutesPlayed
                  (filter (\<lambda>e. day_name (endTime e) = d) rs)))
           else None)"
    unfolding weekly_listening_def reindex_def
    by (auto simp: map_of_groupby_sum)
qed

theorem hourly_and_weekly_buckets_witness:
  "hourly_listening one_play = [(10, 3)] \<and>
   set (map fst (hourly_listening one_play)) = (\<lambda>e. hour (endTime e)) ` set one_play \<and>
   length (weekly_listening one_play) = 7 \<and>
   map fst (weekly_listening one_play) = day_order"
  using hourly_and_weekly_buckets [of one_play] hourly_one_play by blast

text \<open>
  One play on a Monday at 10:00: the hourly summary has one bucket, not 24, and six of
  the seven day buckets hold a missing value.
\<close>

theorem hourly_not_24_weekly_not_zero:
  "hourly_listening one_play = [(10, 3)] \<and>
   length (hourly_listening one_play) \<noteq> 24 \<and>
   weekly_listening one_play =
     [(''Monday'', Some 3), (''Tuesday'', None), (''Wednesday'', None), (''Thursday'', None),
      (''Friday'', None), (''Saturday'', None), (''Sunday'', None)] \<and>
   (''Tuesday'', Some 0) \<notin> set (weekly_listening one_play)"
  by (simp add: hourly_one_play weekly_one_play)

text \<open>
  Claim C7. The histogram of play durations is drawn from \<open>valid_plays\<close>, which holds
  rows of the input only, none with \<open>minutesPlayed\<close> at or below 0.1 and every row
  above 0.1 as often as the input has it.
\<close>

theorem valid_plays_threshold:
  "durations_panel (fst (plot_listening_patterns g)) =
     map minutesPlayed (valid_plays (rows (music_df g))) \<and>
   set (valid_plays rs) \<subseteq> set rs \<and>
   (\<forall>e \<in> set rs. minutesPlayed e \<le> 1 / 10 \<longrightarrow> e \<notin> set (valid_plays rs)) \<and>
   (\<forall>e \<in> set rs. 1 / 10 < minutesPlayed e \<longrightarrow>
      count_list (valid_plays rs) e = count_list rs e)"
proof (intro conjI)
  show "durations_panel (fst (plot_listening_patterns g)) =
     map minutesPlayed (valid_plays (rows (music_df g)))"
    by (simp add: plot_listening_patterns_figure)
  show "set (valid_plays rs) \<subseteq> set rs"
    by (auto simp: valid_plays_def)
  show "\<forall>e \<in> set rs. minutesPlayed e \<le> 1 / 10 \<longrightarrow> e \<notin> set (valid_plays rs)"
    by (auto simp: valid_plays_def)
  have "P e \<Longrightarrow> count_list (filter P xs) e = count_list xs e" for P and e :: event and xs
    by (induction xs) auto
  then show "\<forall>e \<in> set rs. 1 / 10 < minutesPlayed e \<longrightarrow>
      count_list (valid_plays rs) e = count_list rs e"
    by (simp add: valid_plays_def)
qed

theorem valid_plays_threshold_witness:
  "minutesPlayed (play_at 1 10 ''A'' ''T1'' 6000) = 1 / 10 \<and>
   play_at 1 10 ''A'' ''T1'' 6000 \<in> set short_and_long \<and>
   play_at 1 10 ''A'' ''T1'' 6000 \<notin> set (valid_plays short_and_long) \<and>
   1 / 10 < minutesPlayed (play_at 1 10 ''A'' ''T1'' 6001) \<and>
   play_at 1 10 ''A'' ''T1'' 6001 \<in> set short_and_long \<and>
   count_list (valid_plays short_and_long) (play_at 1 10 ''A'' ''T1'' 6001) = 1"
proof -
  have m: "minutesPlayed (play_at 1 10 ''A'' ''T1'' 6000) = 1 / 10"
    "1 / 10 < minutesPlayed (play_at 1 10 ''A'' ''T1'' 6001)"
    by (simp_all add: minutesPlayed_play_at)
  have i: "play_at 1 10 ''A'' ''T1'' 6000 \<in> set short_and_long"
    "play_at 1 10 ''A'' ''T1'' 6001 \<in> set short_and_long"
    by (simp_all add: short_and_long_def)
  have c: "count_list short_and_long (play_at 1 10 ''A'' ''T1'' 6001) = 1"
    by (simp add: short_and_long_def play_at_def)
  from valid_plays_threshold [of "globals_of short_and_long []" short_and_long] m i c
  show ?thesis by auto
qed

text \<open>
  Claim C4, as the code has it. \<open>plot_overall_stats\<close> leaves the global frames as they
  are. \<open>plot_listening_patterns\<close> leaves \<open>podcast_df\<close> and the rows of \<open>music_df\<close>
  as they are and assigns the columns \<open>hour\<close>, \<open>day_of_week\<close> and \<open>month\<close> of
  \<open>music_df\<close>. Neither figure depends on whether \<open>plot_listening_patterns\<close> has run
  before.
\<close>

theorem plot_functions_frame:
  "snd (plot_overall_stats g) = g \<and>
   podcast_df (snd (plot_listening_patterns g)) = podcast_df g \<and>
   rows (music_df (snd (plot_listening_patterns g))) = rows (music_df g) \<and>
   hour_col (music_df (snd (plot_listening_patterns g))) =
     Some (map (\<lambda>e. hour (endTime e)) (rows (music_df g))) \<and>
   day_of_week_col (music_df (snd (plot_listening_patterns g))) =
     Some (map (\<lambda>e. day_name (endTime e)) (rows (music_df g))) \<and>
   month_col (music_df (snd (plot_listening_patterns g))) =
     Some (map (\<lambda>e. strftime_Y_m (endTime e)) (rows (music_df g))) \<and>
   fst (plot_overall_stats (snd (plot_listening_patterns g))) = fst (plot_overall_stats g) \<and>
   fst (plot_listening_patterns (snd (plot_listening_patterns g))) =
     fst (plot_listening_patterns g)"
  by (simp add: plot_overall_stats_def plot_listening_patterns_figure
      plot_listening_patterns_globals)

theorem plot_functions_frame_witness:
  "snd (plot_overall_stats (globals_of one_play [])) = globals_of one_play [] \<and>
   rows (music_df (snd (plot_listening_patterns (globals_of one_play [])))) = one_play \<and>
   hour_col (music_df (snd (plot_listening_patterns (globals_of one_play [])))) = Some [10]"
  using plot_functions_frame [of "globals_of one_play []"]
  by (simp add: globals_of_def fresh_frame_def one_play_def play_at_def)

text \<open>
  On the frame of one play, \<open>plot_listening_patterns\<close> leaves \<open>music_df\<close> with three
  columns it did not have.
\<close>

theorem plot_listening_patterns_writes_music_df:
  "hour_col (music_df (globals_of one_play [])) = None \<and>
   hour_col (music_df (snd (plot_listening_patterns (globals_of one_play [])))) = Some [10] \<and>
   day_of_week_col (music_df (snd (plot_listening_patterns (globals_of one_play [])))) =
     Some [''Monday''] \<and>
   month_col (music_df (snd (plot_listening_patterns (globals_of one_play [])))) =
     Some [''2024-01''] \<and>
   snd (plot_listening_patterns (globals_of one_play [])) \<noteq> globals_of one_play []"
proof -
  have h: "hour_col (music_df (globals_of one_play [])) = None"
    by (simp add: globals_of_def fresh_frame_def)
  have h': "hour_col (music_df (snd (plot_listening_patterns (globals_of one_play [])))) =
     Some [10]"
    by (simp add: plot_listening_patterns_globals globals_of_def fresh_frame_def one_play_def
        play_at_def)
  have d: "day_of_week_col (music_df (snd (plot_listening_patterns (globals_of one_play [])))) =
     Some [''Monday'']"
    by (simp add: plot_listening_patterns_globals globals_of_def fresh_frame_def one_play_def
        day_name_one_play)
  have m: "month_col (music_df (snd (plot_listening_patterns (globals_of one_play [])))) =
     Some [''2024-01'']"
    by (simp add: plot_listening_patterns_globals globals_of_def fresh_frame_def one_play_def
        play_at_def strftime_Y_m_def str_nat.simps)
  from h h' have "snd (plot_listening_patterns (globals_of one_play [])) \<noteq>
      globals_of one_play []"
    by auto
  with h h' d m show ?thesis by simp
qed




end
